theory Spec2Isabelle
  imports Main "HOL-Library.Sublist"
begin

section \<open>The store: Reminder objects and arrays of references\<close>

text \<open>
  The TypeScript program keeps its reminders as objects that are shared by reference:
  \<^verbatim>\<open>getReminder\<close> hands out the stored object itself, and the \<^verbatim>\<open>reminders\<close> accessor
  hands out a new array holding the same objects. The model therefore has an explicit
  store. An address is an index into the store; allocation appends, so the address of a
  new object is the current length and is never the address of an older one.

  Strings are lists of characters. Numbers used as indices are integers (\<open>int\<close>); the
  claims below are about integer indices only.
\<close>

type_synonym addr = nat

text \<open>
  \<^verbatim>\<open>class Reminder\<close>: the private fields \<^verbatim>\<open>_description\<close>, \<^verbatim>\<open>_tag\<close> and
  \<^verbatim>\<open>_isCompleted\<close>.
\<close>

record Reminder =
  p_description :: string
  p_tag :: string
  p_isCompleted :: bool

text \<open>
  The store holds the Reminder objects and the arrays of Reminder references
  (\<^verbatim>\<open>Reminder[]\<close>), each array being the list of the addresses of its elements.
\<close>

record store =
  objs :: "Reminder list"
  arrs :: "addr list list"

definition empty_store :: store where
  "empty_store = \<lparr>objs = [], arrs = []\<rparr>"

text \<open>
  What the program throws: \<^verbatim>\<open>new Error(message)\<close>, and the \<^verbatim>\<open>TypeError\<close> that the
  language raises when a value that is not a function is called.
\<close>

datatype error = Error string | TypeError


definition NotYetImplemented :: error where
  "NotYetImplemented = Error ''Not yet implemented''"

text \<open>
  A method that can throw returns the outcome together with the store: what was written
  before the \<^verbatim>\<open>throw\<close> stays written.
\<close>

type_synonym 'a outcome = "(error + 'a) \<times> store"

section \<open>Strings\<close>

text \<open>
  \<^verbatim>\<open>String.prototype.toLowerCase\<close>, on the letters A to Z; every other character is
  left as it is. No proof below unfolds this definition, apart from the evaluations at
  concrete inputs.
\<close>

definition lower_char :: "char \<Rightarrow> char" where
  "lower_char c =
     (let n = (of_char c :: nat)
      in if of_char CHR ''A'' \<le> n \<and> n \<le> of_char CHR ''Z'' then char_of (n + 32) else c)"

definition toLowerCase :: "string \<Rightarrow> string" where
  "toLowerCase s = map lower_char s"

text \<open>
  \<^verbatim>\<open>s.startsWith(k)\<close> and \<^verbatim>\<open>s.includes(k)\<close>: the search string is looked for at position
  0, then 1, and so on up to the end of \<open>s\<close>; the empty search string is found in
  every string.
\<close>

fun startsWith :: "string \<Rightarrow> string \<Rightarrow> bool" where
  "startsWith s [] = True"
| "startsWith [] (k # ks) = False"
| "startsWith (c # cs) (k # ks) = (c = k \<and> startsWith cs ks)"

fun str_includes :: "string \<Rightarrow> string \<Rightarrow> bool" where
  "str_includes [] k = startsWith [] k"
| "str_includes (c # cs) k = (startsWith (c # cs) k \<or> str_includes cs k)"

section \<open>The Reminder class (src/src/RemindersHandler.ts, lines 178 to 245)\<close>

text \<open>
  \<^verbatim>\<open>constructor(description, tag, isCompleted)\<close>. The third argument is optional at run
  time (\<^verbatim>\<open>addReminder\<close> of the same file passes two arguments), hence the option. The
  constructor stores \<^verbatim>\<open>false\<close> whatever it is given.
\<close>

definition new_Reminder :: "string \<Rightarrow> string \<Rightarrow> bool option \<Rightarrow> store \<Rightarrow> addr \<times> store" where
  "new_Reminder description tag isCompleted s =
     (length (objs s),
      s\<lparr>objs := objs s @ [\<lparr>p_description = description, p_tag = tag, p_isCompleted = False\<rparr>]\<rparr>)"

definition get_description :: "addr \<Rightarrow> store \<Rightarrow> string" where
  "get_description this s = p_description (objs s ! this)"

definition set_description :: "addr \<Rightarrow> string \<Rightarrow> store \<Rightarrow> store" where
  "set_description this description s =
     s\<lparr>objs := (objs s)[this := (objs s ! this)\<lparr>p_description := description\<rparr>]\<rparr>"

definition get_tag :: "addr \<Rightarrow> store \<Rightarrow> string" where
  "get_tag this s = p_tag (objs s ! this)"

text \<open>\<^verbatim>\<open>set tag(tag)\<close> assigns the field and then throws.\<close>

definition set_tag :: "addr \<Rightarrow> string \<Rightarrow> store \<Rightarrow> unit outcome" where
  "set_tag this tag s =
     (Inl NotYetImplemented, s\<lparr>objs := (objs s)[this := (objs s ! this)\<lparr>p_tag := tag\<rparr>]\<rparr>)"

definition isCompleted :: "addr \<Rightarrow> store \<Rightarrow> bool" where
  "isCompleted this s = p_isCompleted (objs s ! this)"

text \<open>
  \<^verbatim>\<open>Reminder.toggleCompletion()\<close> assigns \<^verbatim>\<open>this.isCompleted\<close> (the getter) to the field
  and then throws.
\<close>

definition Reminder_toggleCompletion :: "addr \<Rightarrow> store \<Rightarrow> unit outcome" where
  "Reminder_toggleCompletion this s =
     (Inl NotYetImplemented,
      s\<lparr>objs := (objs s)[this := (objs s ! this)\<lparr>p_isCompleted := isCompleted this s\<rparr>]\<rparr>)"

section \<open>The RemindersHandler class (src/src/RemindersHandler.ts, lines 14 to 173)\<close>

text \<open>
  The handler object has one field, \<^verbatim>\<open>_reminders\<close>, which holds a reference to an
  array and is assigned once, in the constructor.
\<close>

record RemindersHandler =
  p_reminders :: addr

definition new_RemindersHandler :: "store \<Rightarrow> RemindersHandler \<times> store" where
  "new_RemindersHandler s = (\<lparr>p_reminders = length (arrs s)\<rparr>, s\<lparr>arrs := arrs s @ [[]]\<rparr>)"

text \<open>The elements of \<^verbatim>\<open>this._reminders\<close>, in order.\<close>

definition stored :: "RemindersHandler \<Rightarrow> store \<Rightarrow> addr list" where
  "stored this s = arrs s ! p_reminders this"

text \<open>\<^verbatim>\<open>get reminders()\<close> returns \<^verbatim>\<open>[...this._reminders]\<close>: a new array with the same elements.\<close>

definition reminders :: "RemindersHandler \<Rightarrow> store \<Rightarrow> addr \<times> store" where
  "reminders this s = (length (arrs s), s\<lparr>arrs := arrs s @ [stored this s]\<rparr>)"

text \<open>\<^verbatim>\<open>Array.prototype.push\<close> on the array at address \<open>a\<close>.\<close>

definition Array_push :: "addr \<Rightarrow> addr \<Rightarrow> store \<Rightarrow> store" where
  "Array_push a x s = s\<lparr>arrs := (arrs s)[a := arrs s ! a @ [x]]\<rparr>"

definition addReminder :: "RemindersHandler \<Rightarrow> string \<Rightarrow> string \<Rightarrow> store \<Rightarrow> store" where
  "addReminder this description tag s =
     (let (newReminder, s1) = new_Reminder description tag None s
      in Array_push (p_reminders this) newReminder s1)"

definition size_h :: "RemindersHandler \<Rightarrow> store \<Rightarrow> int" where
  "size_h this s = int (length (stored this s))"

definition isIndexValid :: "RemindersHandler \<Rightarrow> int \<Rightarrow> store \<Rightarrow> bool" where
  "isIndexValid this index s =
     (if size_h this s = 0 then False
      else if index < 0 \<or> index + 1 > size_h this s then False
      else True)"


definition modifyReminder :: "RemindersHandler \<Rightarrow> int \<Rightarrow> string \<Rightarrow> store \<Rightarrow> store" where
  "modifyReminder this index description s =
     (if \<not> isIndexValid this index s then s
      else let reminder = stored this s ! nat index
           in set_description reminder description s)"

definition toggleCompletion :: "RemindersHandler \<Rightarrow> int \<Rightarrow> store \<Rightarrow> unit outcome" where
  "toggleCompletion this index s =
     (if \<not> isIndexValid this index s then (Inr (), s)
      else let reminder = stored this s ! nat index
           in Reminder_toggleCompletion reminder s)"




text \<open>
  \<^verbatim>\<open>groupByTag\<close>. The grouping is a plain object literal \<^verbatim>\<open>{}\<close> used as a dictionary,
  so a property read \<^verbatim>\<open>groupings[tag]\<close> that finds no own property goes on to
  \<^verbatim>\<open>Object.prototype\<close>. The names found there are listed below; what is found under
  them (a function, or the prototype object itself for \<^verbatim>\<open>__proto__\<close>) is truthy and has
  no \<^verbatim>\<open>push\<close> method.
\<close>

definition Object_prototype_properties :: "string list" where
  "Object_prototype_properties =
     [''constructor'', ''hasOwnProperty'', ''isPrototypeOf'', ''propertyIsEnumerable'',
      ''toLocaleString'', ''toString'', ''valueOf'', ''__proto__'',
      ''__defineGetter__'', ''__defineSetter__'', ''__lookupGetter__'', ''__lookupSetter__'']"

text \<open>The own properties of a grouping object: each is an array of Reminder references.\<close>

type_synonym RemindersGroupingByTag = "string \<rightharpoonup> addr list"

text \<open>What a property read on the grouping object gives.\<close>

datatype property = Undefined | Own "addr list" | Inherited

definition get_property :: "RemindersGroupingByTag \<Rightarrow> string \<Rightarrow> property" where
  "get_property groupings tag =
     (case groupings tag of
        Some xs \<Rightarrow> Own xs
      | None \<Rightarrow> if tag \<in> set Object_prototype_properties then Inherited else Undefined)"

fun truthy :: "property \<Rightarrow> bool" where
  "truthy Undefined = False"
| "truthy (Own xs) = True"
| "truthy Inherited = True"

text \<open>
  The body of the \<^verbatim>\<open>for ... of\<close> loop: create the group when the read is falsy, then
  call \<^verbatim>\<open>push\<close> on what the read gives. Calling \<^verbatim>\<open>push\<close> on a value that has no such
  method raises a \<^verbatim>\<open>TypeError\<close>.
\<close>

fun groupByTag_loop ::
  "store \<Rightarrow> addr list \<Rightarrow> RemindersGroupingByTag \<Rightarrow> error + RemindersGroupingByTag" where
  "groupByTag_loop s [] groupings = Inr groupings"
| "groupByTag_loop s (reminder # rest) groupings =
     (let tag = toLowerCase (get_tag reminder s);
          groupings1 = (if \<not> truthy (get_property groupings tag)
                        then groupings(tag \<mapsto> []) else groupings)
      in case get_property groupings1 tag of
           Own xs \<Rightarrow> groupByTag_loop s rest (groupings1(tag \<mapsto> xs @ [reminder]))
         | Undefined \<Rightarrow> Inl TypeError
         | Inherited \<Rightarrow> Inl TypeError)"

definition groupByTag :: "RemindersHandler \<Rightarrow> store \<Rightarrow> error + RemindersGroupingByTag" where
  "groupByTag this s = groupByTag_loop s (stored this s) Map.empty"

section \<open>The second RemindersHandler (src/unnamed/part_000)\<close>

text \<open>
  A second file of the repository declares the class \<^verbatim>\<open>RemindersHandler\<close> again. It has
  an extra field \<^verbatim>\<open>_tag\<close>, three of its public methods are still the placeholder
  \<^verbatim>\<open>throw new Error("Not yet implemented")\<close>, and the others differ from the first file
  in places. Its methods are modelled here under the source's names with the suffix
  \<open>_part000\<close>; \<^verbatim>\<open>isIndexValid\<close> and \<^verbatim>\<open>size\<close> are the same text as in the first file.
\<close>

record RemindersHandler_part000 =
  q_reminders :: addr
  q_tag :: string

definition new_RemindersHandler_part000 ::
  "string \<Rightarrow> store \<Rightarrow> RemindersHandler_part000 \<times> store" where
  "new_RemindersHandler_part000 tag s =
     (\<lparr>q_reminders = length (arrs s), q_tag = tag\<rparr>, s\<lparr>arrs := arrs s @ [[]]\<rparr>)"

text \<open>\<^verbatim>\<open>get reminders()\<close> returns \<^verbatim>\<open>this._reminders\<close>, the array itself.\<close>

definition reminders_part000 :: "RemindersHandler_part000 \<Rightarrow> store \<Rightarrow> addr \<times> store" where
  "reminders_part000 this s = (q_reminders this, s)"

definition addReminder_part000 ::
  "RemindersHandler_part000 \<Rightarrow> string \<Rightarrow> string \<Rightarrow> store \<Rightarrow> store" where
  "addReminder_part000 this description tag s =
     (let (reminder, s1) = new_Reminder description tag (Some False) s;
          (a, s2) = reminders_part000 this s1
      in Array_push a reminder s2)"

definition size_part000 :: "RemindersHandler_part000 \<Rightarrow> store \<Rightarrow> int" where
  "size_part000 this s = int (length (arrs s ! q_reminders this))"

definition getReminder_part000 :: "RemindersHandler_part000 \<Rightarrow> int \<Rightarrow> store \<Rightarrow> error + addr" where
  "getReminder_part000 this index s = Inl NotYetImplemented"

definition modifyReminder_part000 ::
  "RemindersHandler_part000 \<Rightarrow> int \<Rightarrow> string \<Rightarrow> store \<Rightarrow> unit outcome" where
  "modifyReminder_part000 this index description s = (Inl NotYetImplemented, s)"

definition toggleCompletion_part000 ::
  "RemindersHandler_part000 \<Rightarrow> int \<Rightarrow> store \<Rightarrow> unit outcome" where
  "toggleCompletion_part000 this index s = (Inl NotYetImplemented, s)"

definition search_part000 :: "RemindersHandler_part000 \<Rightarrow> string \<Rightarrow> store \<Rightarrow> addr list" where
  "search_part000 this keyword s =
     (let tagMatches = filter (\<lambda>reminder. get_tag reminder s = keyword)
                         (arrs s ! q_reminders this)
      in if length tagMatches > 0 then tagMatches
         else filter (\<lambda>reminder. str_includes (toLowerCase (get_description reminder s))
                                    (toLowerCase keyword))
                (arrs s ! q_reminders this))"

text \<open>
  \<^verbatim>\<open>groupByTag\<close> of the second file: the tag is used as it is, and \<^verbatim>\<open>push\<close> is in the
  \<^verbatim>\<open>else\<close> branch of the test that creates the group.
\<close>

fun groupByTag_loop_part000 ::
  "store \<Rightarrow> addr list \<Rightarrow> RemindersGroupingByTag \<Rightarrow> error + RemindersGroupingByTag" where
  "groupByTag_loop_part000 s [] groupings = Inr groupings"
| "groupByTag_loop_part000 s (reminder # rest) groupings =
     (let tag = get_tag reminder s
      in if \<not> truthy (get_property groupings tag)
         then groupByTag_loop_part000 s rest (groupings(tag \<mapsto> []))
         else case get_property groupings tag of
                Own xs \<Rightarrow> groupByTag_loop_part000 s rest (groupings(tag \<mapsto> xs @ [reminder]))
              | Undefined \<Rightarrow> Inl TypeError
              | Inherited \<Rightarrow> Inl TypeError)"

definition groupByTag_part000 ::
  "RemindersHandler_part000 \<Rightarrow> store \<Rightarrow> error + RemindersGroupingByTag" where
  "groupByTag_part000 this s = groupByTag_loop_part000 s (arrs s ! q_reminders this) Map.empty"

section \<open>What a caller can do with the references it is given\<close>

text \<open>
  \<^verbatim>\<open>Array.prototype.pop\<close> on the array at address \<open>a\<close>: the last element is removed and
  returned; on an empty array nothing changes and the result is \<^verbatim>\<open>undefined\<close>.
\<close>

definition Array_pop :: "addr \<Rightarrow> store \<Rightarrow> addr option \<times> store" where
  "Array_pop a s =
     (if arrs s ! a = [] then (None, s)
      else (Some (last (arrs s ! a)), s\<lparr>arrs := (arrs s)[a := butlast (arrs s ! a)]\<rparr>))"




text \<open>An array literal \<^verbatim>\<open>[]\<close> evaluated by the caller.\<close>

definition new_Array :: "store \<Rightarrow> addr \<times> store" where
  "new_Array s = (length (arrs s), s\<lparr>arrs := arrs s @ [[]]\<rparr>)"

text \<open>
  The stores that a program can build before it creates the handler: it creates Reminder
  objects and arrays, uses the public members of the Reminder objects, and pushes
  Reminder objects to its arrays and pops them, in any order. A thrown error is caught by
  the caller; what the method wrote before throwing stays.
\<close>

inductive outside :: "store \<Rightarrow> bool" where
  start: "outside empty_store"
| o_new_Reminder: "outside s \<Longrightarrow> outside (snd (new_Reminder d t c s))"
| o_new_Array: "outside s \<Longrightarrow> outside (snd (new_Array s))"
| o_set_description:
    "outside s \<Longrightarrow> a < length (objs s) \<Longrightarrow> outside (set_description a d s)"
| o_set_tag:
    "outside s \<Longrightarrow> a < length (objs s) \<Longrightarrow> outside (snd (set_tag a t s))"
| o_Reminder_toggleCompletion:
    "outside s \<Longrightarrow> a < length (objs s) \<Longrightarrow>
     outside (snd (Reminder_toggleCompletion a s))"
| o_push:
    "outside s \<Longrightarrow> a < length (arrs s) \<Longrightarrow> x < length (objs s) \<Longrightarrow>
     outside (Array_push a x s)"
| o_pop: "outside s \<Longrightarrow> a < length (arrs s) \<Longrightarrow> outside (snd (Array_pop a s))"

text \<open>
  The states of a handler that a program can reach: the handler is created, and then its
  public methods are called and the program goes on as before, except that the only
  arrays it can push to and pop from are its own and those that the \<^verbatim>\<open>reminders\<close>
  accessor returned: the handler's array is private. The methods that only read
  (\<^verbatim>\<open>getReminder\<close>, \<^verbatim>\<open>isIndexValid\<close>, \<^verbatim>\<open>size\<close>, \<^verbatim>\<open>search\<close>, \<^verbatim>\<open>groupByTag\<close> and the
  getters) leave the store as it is.
\<close>

inductive reachable :: "RemindersHandler \<Rightarrow> store \<Rightarrow> bool" for this :: RemindersHandler where
  created: "outside s0 \<Longrightarrow> new_RemindersHandler s0 = (this, s) \<Longrightarrow> reachable this s"
| by_addReminder: "reachable this s \<Longrightarrow> reachable this (addReminder this d t s)"
| by_modifyReminder: "reachable this s \<Longrightarrow> reachable this (modifyReminder this i d s)"
| by_toggleCompletion: "reachable this s \<Longrightarrow> reachable this (snd (toggleCompletion this i s))"
| by_reminders: "reachable this s \<Longrightarrow> reachable this (snd (reminders this s))"
| by_new_Reminder: "reachable this s \<Longrightarrow> reachable this (snd (new_Reminder d t c s))"
| by_new_Array: "reachable this s \<Longrightarrow> reachable this (snd (new_Array s))"
| by_set_description:
    "reachable this s \<Longrightarrow> a < length (objs s) \<Longrightarrow> reachable this (set_description a d s)"
| by_set_tag:
    "reachable this s \<Longrightarrow> a < length (objs s) \<Longrightarrow> reachable this (snd (set_tag a t s))"
| by_Reminder_toggleCompletion:
    "reachable this s \<Longrightarrow> a < length (objs s) \<Longrightarrow>
     reachable this (snd (Reminder_toggleCompletion a s))"
| by_push:
    "reachable this s \<Longrightarrow> a < length (arrs s) \<Longrightarrow> a \<noteq> p_reminders this \<Longrightarrow>
     x < length (objs s) \<Longrightarrow> reachable this (Array_push a x s)"
| by_pop:
    "reachable this s \<Longrightarrow> a < length (arrs s) \<Longrightarrow> a \<noteq> p_reminders this \<Longrightarrow>
     reachable this (snd (Array_pop a s))"

section \<open>Well-formed handler states\<close>

text \<open>
  The handler's array exists, every element of it is an allocated Reminder, and no
  Reminder is stored twice. Every reachable state is well formed (lemma
  \<open>reachable_wf\<close> below), and the properties that speak of every handler state are
  proved for every well-formed one.
\<close>

definition wf :: "RemindersHandler \<Rightarrow> store \<Rightarrow> bool" where
  "wf this s \<longleftrightarrow>
     p_reminders this < length (arrs s) \<and>
     list_all (\<lambda>a. a < length (objs s)) (stored this s) \<and>
     distinct (stored this s)"

text \<open>A run of \<^verbatim>\<open>addReminder\<close> calls, one per (description, tag) pair.\<close>

fun addReminders :: "RemindersHandler \<Rightarrow> (string \<times> string) list \<Rightarrow> store \<Rightarrow> store" where
  "addReminders this [] s = s"
| "addReminders this ((d, t) # rest) s = addReminders this rest (addReminder this d t s)"

text \<open>
  The group of the key \<open>k\<close> as the specification describes it: the reminders of the
  sequence whose lowercased tag is \<open>k\<close>, in the order of the sequence.
\<close>

definition group_of :: "store \<Rightarrow> addr list \<Rightarrow> string \<Rightarrow> addr list" where
  "group_of s rs k = filter (\<lambda>r. toLowerCase (get_tag r s) = k) rs"

section \<open>An example state\<close>

text \<open>A new handler on the empty store, after three calls of \<^verbatim>\<open>addReminder\<close>.\<close>

definition ex_handler :: RemindersHandler where
  "ex_handler = fst (new_RemindersHandler empty_store)"

definition ex_store :: store where
  "ex_store =
     addReminders ex_handler
       [(''Buy Milk'', ''Grocery''), (''Buy eggs'', ''grocery''), (''Get home'', ''Work'')]
       (snd (new_RemindersHandler empty_store))"

text \<open>The same three calls on a new handler of the second file.\<close>

definition ex_handler_part000 :: RemindersHandler_part000 where
  "ex_handler_part000 = fst (new_RemindersHandler_part000 [] empty_store)"

fun addReminders_part000 ::
  "RemindersHandler_part000 \<Rightarrow> (string \<times> string) list \<Rightarrow> store \<Rightarrow> store" where
  "addReminders_part000 this [] s = s"
| "addReminders_part000 this ((d, t) # rest) s =
     addReminders_part000 this rest (addReminder_part000 this d t s)"

definition ex_store_part000 :: store where
  "ex_store_part000 =
     addReminders_part000 ex_handler_part000
       [(''Buy Milk'', ''Grocery''), (''Buy eggs'', ''grocery''), (''Get home'', ''Work'')]
       (snd (new_RemindersHandler_part000 [] empty_store))"

section \<open>Basic facts\<close>

lemma stored_addReminder:
  "p_reminders this < length (arrs s) \<Longrightarrow>
   stored this (addReminder this d t s) = stored this s @ [length (objs s)]"
  by (simp add: addReminder_def new_Reminder_def Array_push_def stored_def)

lemma objs_addReminder:
  "objs (addReminder this d t s) =
   objs s @ [\<lparr>p_description = d, p_tag = t, p_isCompleted = False\<rparr>]"
  by (simp add: addReminder_def new_Reminder_def Array_push_def)

lemma length_arrs_addReminder: "length (arrs (addReminder this d t s)) = length (arrs s)"
  by (simp add: addReminder_def new_Reminder_def Array_push_def)

lemma wf_addReminder: "wf this s \<Longrightarrow> wf this (addReminder this d t s)"
  unfolding wf_def
  by (auto simp: stored_addReminder objs_addReminder length_arrs_addReminder list_all_iff)

lemma wf_new_RemindersHandler:
  "new_RemindersHandler s = (this, s') \<Longrightarrow> wf this s'"
  by (auto simp: new_RemindersHandler_def wf_def stored_def nth_append)

lemma wf_addReminders: "wf this s \<Longrightarrow> wf this (addReminders this xs s)"
  by (induction xs arbitrary: s) (auto simp: wf_addReminder)

lemma size_addReminders:
  "wf this s \<Longrightarrow> size_h this (addReminders this xs s) = size_h this s + int (length xs)"
proof (induction xs arbitrary: s)
  case Nil
  then show ?case by simp
next
  case (Cons x xs)
  obtain d t where x: "x = (d, t)" by (cases x)
  have "wf this (addReminder this d t s)" using Cons.prems by (rule wf_addReminder)
  then have "size_h this (addReminders this xs (addReminder this d t s)) =
             size_h this (addReminder this d t s) + int (length xs)"
    by (rule Cons.IH)
  moreover have "size_h this (addReminder this d t s) = size_h this s + 1"
    using Cons.prems by (simp add: size_h_def stored_addReminder wf_def)
  ultimately show ?case by (simp add: x)
qed



lemma ex_handler_eq: "ex_handler = \<lparr>p_reminders = 0\<rparr>"
  by (simp add: ex_handler_def new_RemindersHandler_def empty_store_def)

lemma ex_store_eq:
  "ex_store =
     \<lparr>objs = [\<lparr>p_description = ''Buy Milk'', p_tag = ''Grocery'', p_isCompleted = False\<rparr>,
              \<lparr>p_description = ''Buy eggs'', p_tag = ''grocery'', p_isCompleted = False\<rparr>,
              \<lparr>p_description = ''Get home'', p_tag = ''Work'', p_isCompleted = False\<rparr>],
      arrs = [[0, 1, 2]]\<rparr>"
  by (simp add: ex_store_def ex_handler_eq new_RemindersHandler_def empty_store_def
      addReminder_def new_Reminder_def Array_push_def)

lemma wf_ex: "wf ex_handler ex_store"
  by (simp add: wf_def stored_def ex_handler_eq ex_store_eq)

lemma stored_ex: "stored ex_handler ex_store = [0, 1, 2]"
  by (simp add: stored_def ex_handler_eq ex_store_eq)

lemma Reminder_toggleCompletion_same:
  "Reminder_toggleCompletion a s = (Inl NotYetImplemented, s)"
  by (cases "a < length (objs s)") (simp_all add: Reminder_toggleCompletion_def isCompleted_def)

lemma toggleCompletion_same: "snd (toggleCompletion this i s) = s"
  by (simp add: toggleCompletion_def Reminder_toggleCompletion_same)


lemma arrs_set_description: "arrs (set_description a d s) = arrs s"
  by (simp add: set_description_def)

lemma arrs_modifyReminder: "arrs (modifyReminder this i d s) = arrs s"
  by (simp add: modifyReminder_def arrs_set_description Let_def)

lemma stored_modifyReminder: "stored this (modifyReminder this i d s) = stored this s"
  by (simp add: stored_def arrs_modifyReminder)


lemma length_objs_set_description: "length (objs (set_description a d s)) = length (objs s)"
  by (simp add: set_description_def)











lemma length_objs_modifyReminder:
  "length (objs (modifyReminder this i d s)) = length (objs s)"
  by (simp add: modifyReminder_def length_objs_set_description Let_def)

lemma reachable_wf: "reachable this s \<Longrightarrow> wf this s"
proof (induction rule: reachable.induct)
  case (created s0 s)
  then show ?case by (simp add: wf_new_RemindersHandler)
next
  case (by_addReminder s d t)
  then show ?case by (simp add: wf_addReminder)
next
  case (by_modifyReminder s i d)
  then show ?case
    by (simp add: wf_def stored_modifyReminder arrs_modifyReminder length_objs_modifyReminder)
next
  case (by_toggleCompletion s i)
  then show ?case by (simp add: toggleCompletion_same)
next
  case (by_reminders s)
  then show ?case by (simp add: wf_def reminders_def stored_def nth_append)
next
  case (by_new_Reminder s d t c)
  then show ?case by (auto simp: wf_def new_Reminder_def stored_def list_all_iff)
next
  case (by_new_Array s)
  then show ?case by (simp add: wf_def new_Array_def stored_def nth_append)
next
  case (by_set_description s a d)
  then show ?case by (simp add: wf_def set_description_def stored_def)
next
  case (by_set_tag s a t)
  then show ?case by (simp add: wf_def set_tag_def stored_def)
next
  case (by_Reminder_toggleCompletion s a)
  then show ?case by (simp add: Reminder_toggleCompletion_same)
next
  case (by_push s a x)
  then show ?case by (simp add: wf_def Array_push_def stored_def)
next
  case (by_pop s a)
  then show ?case by (simp add: wf_def Array_pop_def stored_def)
qed

lemma list_all_update:
  "list_all P xs \<Longrightarrow> (a < length xs \<Longrightarrow> P v) \<Longrightarrow> list_all P (xs[a := v])"
  by (cases "a < length xs") (auto simp: list_all_length nth_list_update)

lemma not_completed_set_description:
  assumes "list_all (\<lambda>r. \<not> p_isCompleted r) (objs s)"
  shows "list_all (\<lambda>r. \<not> p_isCompleted r) (objs (set_description a d s))"
proof -
  have "a < length (objs s) \<Longrightarrow> \<not> p_isCompleted ((objs s ! a)\<lparr>p_description := d\<rparr>)"
    using assms by (simp add: list_all_length)
  with assms show ?thesis
    by (simp add: set_description_def list_all_update)
qed

lemma not_completed_set_tag:
  assumes "list_all (\<lambda>r. \<not> p_isCompleted r) (objs s)"
  shows "list_all (\<lambda>r. \<not> p_isCompleted r) (objs (snd (set_tag a t s)))"
proof -
  have "a < length (objs s) \<Longrightarrow> \<not> p_isCompleted ((objs s ! a)\<lparr>p_tag := t\<rparr>)"
    using assms by (simp add: list_all_length)
  with assms show ?thesis
    by (simp add: set_tag_def list_all_update)
qed

lemma outside_not_completed:
  "outside s \<Longrightarrow> list_all (\<lambda>r. \<not> p_isCompleted r) (objs s)"
proof (induction rule: outside.induct)
  case start
  then show ?case by (simp add: empty_store_def)
next
  case (o_new_Reminder s d t c)
  then show ?case by (simp add: new_Reminder_def)
next
  case (o_new_Array s)
  then show ?case by (simp add: new_Array_def)
next
  case (o_set_description s a d)
  then show ?case by (simp add: not_completed_set_description)
next
  case (o_set_tag s a t)
  then show ?case by (simp add: not_completed_set_tag)
next
  case (o_Reminder_toggleCompletion s a)
  then show ?case by (simp add: Reminder_toggleCompletion_same)
next
  case (o_push s a x)
  then show ?case by (simp add: Array_push_def)
next
  case (o_pop s a)
  then show ?case by (simp add: Array_pop_def)
qed

lemma reachable_not_completed:
  "reachable this s \<Longrightarrow> list_all (\<lambda>r. \<not> p_isCompleted r) (objs s)"
proof (induction rule: reachable.induct)
  case (created s0 s)
  then show ?case
    using outside_not_completed [of s0] by (auto simp: new_RemindersHandler_def)
next
  case (by_addReminder s d t)
  then show ?case by (simp add: objs_addReminder)
next
  case (by_modifyReminder s i d)
  then show ?case
    by (simp add: modifyReminder_def not_completed_set_description Let_def)
next
  case (by_toggleCompletion s i)
  then show ?case by (simp add: toggleCompletion_same)
next
  case (by_reminders s)
  then show ?case by (simp add: reminders_def)
next
  case (by_new_Reminder s d t c)
  then show ?case by (simp add: new_Reminder_def)
next
  case (by_new_Array s)
  then show ?case by (simp add: new_Array_def)
next
  case (by_set_description s a d)
  then show ?case by (simp add: not_completed_set_description)
next
  case (by_set_tag s a t)
  then show ?case by (simp add: not_completed_set_tag)
next
  case (by_Reminder_toggleCompletion s a)
  then show ?case by (simp add: Reminder_toggleCompletion_same)
next
  case (by_push s a x)
  then show ?case by (simp add: Array_push_def)
next
  case (by_pop s a)
  then show ?case by (simp add: Array_pop_def)
qed

lemma reachable_addReminders:
  "reachable this s \<Longrightarrow> reachable this (addReminders this xs s)"
proof (induction xs arbitrary: s)
  case Nil
  then show ?case by simp
next
  case (Cons x xs)
  obtain d t where x: "x = (d, t)" by (cases x)
  have "reachable this (addReminder this d t s)"
    using Cons.prems by (rule reachable.by_addReminder)
  then show ?case
    using Cons.IH by (simp add: x)
qed

lemma reachable_ex: "reachable ex_handler ex_store"
  unfolding ex_store_def
  by (rule reachable_addReminders, rule reachable.created [OF outside.start])
    (simp add: ex_handler_def)

lemma groupByTag_loop_groups:
  assumes "\<forall>r \<in> set rs. toLowerCase (get_tag r s) \<notin> set Object_prototype_properties"
  shows "groupByTag_loop s rs g =
           Inr (\<lambda>k. case g k of
                       None \<Rightarrow> if group_of s rs k = [] then None else Some (group_of s rs k)
                     | Some xs \<Rightarrow> Some (xs @ group_of s rs k))"
  using assms
proof (induction rs arbitrary: g)
  case Nil
  then show ?case by (auto simp: group_of_def split: option.splits)
next
  case (Cons r rs)
  let ?t = "toLowerCase (get_tag r s)"
  have rest: "\<forall>r \<in> set rs. toLowerCase (get_tag r s) \<notin> set Object_prototype_properties"
    using Cons.prems by simp
  have t: "?t \<notin> set Object_prototype_properties"
    using Cons.prems by simp
  show ?case
  proof (cases "g ?t")
    case None
    then have "groupByTag_loop s (r # rs) g = groupByTag_loop s rs (g(?t \<mapsto> [r]))"
      using t by (simp add: get_property_def Let_def)
    also have "\<dots> = Inr (\<lambda>k. case (g(?t \<mapsto> [r])) k of
                       None \<Rightarrow> if group_of s rs k = [] then None else Some (group_of s rs k)
                     | Some xs \<Rightarrow> Some (xs @ group_of s rs k))"
      using rest by (rule Cons.IH)
    also have "\<dots> = Inr (\<lambda>k. case g k of
                       None \<Rightarrow> if group_of s (r # rs) k = [] then None
                               else Some (group_of s (r # rs) k)
                     | Some xs \<Rightarrow> Some (xs @ group_of s (r # rs) k))"
      using None by (auto simp: fun_eq_iff group_of_def split: option.splits)
    finally show ?thesis .
  next
    case (Some xs)
    then have "groupByTag_loop s (r # rs) g = groupByTag_loop s rs (g(?t \<mapsto> xs @ [r]))"
      by (simp add: get_property_def Let_def)
    also have "\<dots> = Inr (\<lambda>k. case (g(?t \<mapsto> xs @ [r])) k of
                       None \<Rightarrow> if group_of s rs k = [] then None else Some (group_of s rs k)
                     | Some xs \<Rightarrow> Some (xs @ group_of s rs k))"
      using rest by (rule Cons.IH)
    also have "\<dots> = Inr (\<lambda>k. case g k of
                       None \<Rightarrow> if group_of s (r # rs) k = [] then None
                               else Some (group_of s (r # rs) k)
                     | Some xs \<Rightarrow> Some (xs @ group_of s (r # rs) k))"
      using Some by (auto simp: fun_eq_iff group_of_def split: option.splits)
    finally show ?thesis .
  qed
qed

lemma groupByTag_groups:
  assumes "\<forall>r \<in> set (stored this s). toLowerCase (get_tag r s) \<notin> set Object_prototype_properties"
  shows "groupByTag this s =
           Inr (\<lambda>k. if group_of s (stored this s) k = [] then None
                     else Some (group_of s (stored this s) k))"
  using groupByTag_loop_groups [OF assms, of Map.empty] by (simp add: groupByTag_def)

lemma groupByTag_inherited:
  assumes "r \<in> set rs" "toLowerCase (get_tag r s) \<in> set Object_prototype_properties"
    "dom g \<inter> set Object_prototype_properties = {}"
  shows "groupByTag_loop s rs g = Inl TypeError"
  using assms
proof (induction rs arbitrary: g)
  case Nil
  then show ?case by simp
next
  case (Cons x xs)
  let ?t = "toLowerCase (get_tag x s)"
  show ?case
  proof (cases "?t \<in> set Object_prototype_properties")
    case True
    then have "g ?t = None" using Cons.prems(3) by auto
    then show ?thesis using True by (simp add: get_property_def Let_def)
  next
    case False
    then have r: "r \<in> set xs" using Cons.prems by auto
    have d: "dom (g(?t \<mapsto> ys)) \<inter> set Object_prototype_properties = {}" for ys
      using False Cons.prems(3) by auto
    show ?thesis
    proof (cases "g ?t")
      case None
      then have "groupByTag_loop s (x # xs) g = groupByTag_loop s xs (g(?t \<mapsto> [x]))"
        using False by (simp add: get_property_def Let_def)
      then show ?thesis
        using Cons.IH [OF r Cons.prems(2) d] by simp
    next
      case (Some ys)
      then have "groupByTag_loop s (x # xs) g = groupByTag_loop s xs (g(?t \<mapsto> ys @ [x]))"
        by (simp add: get_property_def Let_def)
      then show ?thesis
        using Cons.IH [OF r Cons.prems(2) d] by simp
    qed
  qed
qed

lemma groupByTag_ex:
  "(case groupByTag ex_handler ex_store of
      Inl e \<Rightarrow> False
    | Inr g \<Rightarrow> g ''grocery'' = Some [0, 1] \<and> g ''work'' = Some [2] \<and> g ''Grocery'' = None)"
  by code_simp

section \<open>Properties of the specification\<close>

text \<open>
  C6. For every handler state and every integer \<open>i\<close>, negative values and \<open>size()\<close>
  included, \<^verbatim>\<open>isIndexValid(i)\<close> is true exactly when \<open>0 \<le> i < size()\<close>. The method
  reads the store and returns a truth value only: the model has no store to return, so
  it has no side effect.
\<close>

theorem isIndexValid_iff:
  "isIndexValid this i s = (0 \<le> i \<and> i < size_h this s)"
  by (simp add: isIndexValid_def)

text \<open>
  C7. For every handler state and every description and tag, the empty string included,
  \<^verbatim>\<open>addReminder(description, tag)\<close> succeeds (the model returns a store and no error),
  appends to the end of the sequence a new Reminder object with that description, that
  tag and \<open>isCompleted = false\<close>, leaves the objects already there as they are, and
  increases \<^verbatim>\<open>size()\<close> by exactly 1. Hence after \<open>n\<close> calls of \<^verbatim>\<open>addReminder\<close> on a
  new handler, \<^verbatim>\<open>size()\<close> is \<open>n\<close>.
\<close>

theorem addReminder_appends:
  assumes "wf this s"
  shows "stored this (addReminder this d t s) = stored this s @ [length (objs s)] \<and>
         length (objs s) \<notin> set (stored this s) \<and>
         objs (addReminder this d t s) =
           objs s @ [\<lparr>p_description = d, p_tag = t, p_isCompleted = False\<rparr>] \<and>
         size_h this (addReminder this d t s) = size_h this s + 1 \<and>
         wf this (addReminder this d t s) \<and>
         size_h (fst (new_RemindersHandler s0))
           (addReminders (fst (new_RemindersHandler s0)) xs (snd (new_RemindersHandler s0))) =
           int (length xs)"
proof -
  have in_range: "p_reminders this < length (arrs s)"
    using assms by (simp add: wf_def)
  have fresh: "length (objs s) \<notin> set (stored this s)"
    using assms by (auto simp: wf_def list_all_iff)
  have size: "size_h this (addReminder this d t s) = size_h this s + 1"
    by (simp add: size_h_def stored_addReminder [OF in_range])
  obtain h s1 where new: "new_RemindersHandler s0 = (h, s1)"
    by (cases "new_RemindersHandler s0")
  have "wf h s1" using new by (rule wf_new_RemindersHandler)
  then have "size_h h (addReminders h xs s1) = size_h h s1 + int (length xs)"
    by (rule size_addReminders)
  moreover have "size_h h s1 = 0"
    using new by (auto simp: new_RemindersHandler_def size_h_def stored_def)
  ultimately have run: "size_h h (addReminders h xs s1) = int (length xs)"
    by simp
  show ?thesis
    using stored_addReminder [OF in_range] fresh objs_addReminder size
      wf_addReminder [OF assms] run new
    by simp
qed

theorem addReminder_appends_witness:
  "wf ex_handler ex_store \<and>
   stored ex_handler (addReminder ex_handler [] [] ex_store) = [0, 1, 2, 3] \<and>
   objs (addReminder ex_handler [] [] ex_store) ! 3 =
     \<lparr>p_description = [], p_tag = [], p_isCompleted = False\<rparr> \<and>
   size_h ex_handler (addReminder ex_handler [] [] ex_store) = 4 \<and>
   size_h ex_handler ex_store = 3"
proof -
  have "length (objs ex_store) = 3"
    by (simp add: ex_store_eq)
  moreover have "size_h ex_handler ex_store = 3"
    by (simp add: size_h_def stored_ex)
  ultimately have len: "length (objs ex_store) = 3 \<and> size_h ex_handler ex_store = 3"
    by simp
  show ?thesis
    using addReminder_appends [OF wf_ex, of "[]" "[]"] wf_ex len
    by (simp add: stored_ex nth_append)
qed









text \<open>
  C10. In every reachable state the \<^verbatim>\<open>isCompleted\<close> field of every stored reminder (and
  of every Reminder object there is) is false. The constructor sets it to false whatever
  \<^verbatim>\<open>isCompleted\<close> argument it is given; \<^verbatim>\<open>Reminder.toggleCompletion\<close> assigns the field
  its current value, which leaves the store as it was, and then throws; and so the
  handler's \<^verbatim>\<open>toggleCompletion\<close> with a valid index leaves the store as it was and
  throws as well.
\<close>

theorem isCompleted_stays_false:
  "(reachable this s \<longrightarrow>
      (\<forall>a \<in> set (stored this s). isCompleted a s = False) \<and>
      (\<forall>a < length (objs s). isCompleted a s = False)) \<and>
   isCompleted (fst (new_Reminder d t c s0)) (snd (new_Reminder d t c s0)) = False \<and>
   Reminder_toggleCompletion b s0 = (Inl NotYetImplemented, s0) \<and>
   toggleCompletion this i s0 = (if isIndexValid this i s0 then Inl NotYetImplemented else Inr (), s0)"
proof -
  have "\<forall>a < length (objs s). isCompleted a s = False" if "reachable this s"
    using reachable_not_completed [OF that] by (simp add: list_all_length isCompleted_def)
  moreover have "\<forall>a \<in> set (stored this s). a < length (objs s)" if "reachable this s"
    using reachable_wf [OF that] by (simp add: wf_def list_all_iff)
  moreover have "isCompleted (fst (new_Reminder d t c s0)) (snd (new_Reminder d t c s0)) = False"
    by (simp add: new_Reminder_def isCompleted_def)
  moreover have "toggleCompletion this i s0 =
      (if isIndexValid this i s0 then Inl NotYetImplemented else Inr (), s0)"
    by (simp add: toggleCompletion_def Reminder_toggleCompletion_same)
  ultimately show ?thesis
    using Reminder_toggleCompletion_same [of b s0] by auto
qed

theorem isCompleted_stays_false_witness:
  "reachable ex_handler (snd (toggleCompletion ex_handler 0 ex_store)) \<and>
   stored ex_handler (snd (toggleCompletion ex_handler 0 ex_store)) = [0, 1, 2] \<and>
   isCompleted 0 (snd (toggleCompletion ex_handler 0 ex_store)) = False \<and>
   isCompleted 1 (snd (toggleCompletion ex_handler 0 ex_store)) = False \<and>
   isCompleted 2 (snd (toggleCompletion ex_handler 0 ex_store)) = False \<and>
   isCompleted 0 (snd (new_Reminder ''Pay rent'' ''Home'' (Some True) empty_store)) = False"
proof -
  have r: "reachable ex_handler (snd (toggleCompletion ex_handler 0 ex_store))"
    using reachable_ex by (rule reachable.by_toggleCompletion)
  have st: "stored ex_handler (snd (toggleCompletion ex_handler 0 ex_store)) = [0, 1, 2]"
    by (simp add: toggleCompletion_same stored_ex)
  have new: "fst (new_Reminder ''Pay rent'' ''Home'' (Some True) empty_store) = 0"
    by (simp add: new_Reminder_def empty_store_def)
  show ?thesis
    using isCompleted_stays_false [of ex_handler "snd (toggleCompletion ex_handler 0 ex_store)"
        "''Pay rent''" "''Home''" "Some True" empty_store] r st new
    by simp
qed

text \<open>
  C2. The claim: for every handler state \<^verbatim>\<open>groupByTag()\<close> returns a mapping whose keys
  are exactly the lowercased tags of the stored reminders, each group holding the
  reminders of that lowercased tag in insertion order. Lemma \<open>groupByTag_groups\<close>
  above shows that this is what the method returns as long as no lowercased tag is the
  name of a property that the grouping object inherits. The claim fails where one is:
  after \<^verbatim>\<open>addReminder("Call the builder", "Constructor")\<close> on the example state, the read
  \<^verbatim>\<open>groupings["constructor"]\<close> finds the inherited \<^verbatim>\<open>Object.prototype.constructor\<close>, the
  group is not created, and the call of \<^verbatim>\<open>push\<close> on that value raises a \<^verbatim>\<open>TypeError\<close>
  (lemma \<open>groupByTag_inherited\<close> is the general statement).
\<close>

theorem groupByTag_inherited_name:
  "groupByTag ex_handler (addReminder ex_handler ''Call the builder'' ''Constructor'' ex_store) =
     Inl TypeError"
proof -
  have "case groupByTag ex_handler
               (addReminder ex_handler ''Call the builder'' ''Constructor'' ex_store) of
          Inl e \<Rightarrow> e = TypeError
        | Inr g \<Rightarrow> False"
    by code_simp
  then show ?thesis
    by (simp split: sum.splits)
qed

text \<open>
  C4. The claim: \<^verbatim>\<open>Reminder.toggleCompletion()\<close> flips \<open>isCompleted\<close>, and two calls of
  the handler's \<^verbatim>\<open>toggleCompletion(i)\<close> on a valid \<open>i\<close> restore the original value. The
  method does not flip: on the first reminder of the example state, whose \<open>isCompleted\<close>
  is false, it throws \<^verbatim>\<open>Error("Not yet implemented")\<close> and leaves the store as it was, so
  \<open>isCompleted\<close> is still false; the handler's \<^verbatim>\<open>toggleCompletion(0)\<close>, a valid index,
  throws the same error.
\<close>

theorem Reminder_toggleCompletion_keeps_value:
  "isCompleted 0 ex_store = False \<and>
   Reminder_toggleCompletion 0 ex_store = (Inl NotYetImplemented, ex_store) \<and>
   isCompleted 0 (snd (Reminder_toggleCompletion 0 ex_store)) = False \<and>
   isIndexValid ex_handler 0 ex_store \<and>
   toggleCompletion ex_handler 0 ex_store = (Inl NotYetImplemented, ex_store)"
  by (simp add: Reminder_toggleCompletion_same toggleCompletion_def isIndexValid_def size_h_def
      stored_ex isCompleted_def) (simp add: ex_store_eq)

text \<open>
  C8. The claim: \<^verbatim>\<open>Reminder.setTag(text)\<close> replaces the tag and raises no error, and no
  operation of Reminder has an error condition. The setter does replace the tag, and
  then throws \<^verbatim>\<open>Error("Not yet implemented")\<close>: on the first reminder of the example
  state, tagged \<^verbatim>\<open>Grocery\<close>, setting the tag to \<^verbatim>\<open>Food\<close> ends in that error with the new
  tag written.
\<close>

theorem set_tag_throws:
  "fst (set_tag 0 ''Food'' ex_store) = Inl NotYetImplemented \<and>
   get_tag 0 (snd (set_tag 0 ''Food'' ex_store)) = ''Food'' \<and>
   get_tag 0 ex_store = ''Grocery''"
  by (simp add: set_tag_def get_tag_def ex_store_eq)

section \<open>The second RemindersHandler: where it differs\<close>

text \<open>
  \<^verbatim>\<open>addReminder\<close> does the same in both files. In the second file \<^verbatim>\<open>getReminder\<close> and \<^verbatim>\<open>modifyReminder\<close> always throw the placeholder
  error; \<^verbatim>\<open>search\<close> compares the tag with the keyword as they are, so \<^verbatim>\<open>grocery\<close> finds
  the reminder tagged \<^verbatim>\<open>grocery\<close> and not the one tagged \<^verbatim>\<open>Grocery\<close>; the \<^verbatim>\<open>reminders\<close>
  accessor returns the handler's own array, so a push on the result changes \<^verbatim>\<open>size()\<close>;
  and \<^verbatim>\<open>groupByTag\<close> neither lowercases the tag nor puts the first reminder of a tag
  into its group.
\<close>

lemma ex_handler_part000_eq: "ex_handler_part000 = \<lparr>q_reminders = 0, q_tag = []\<rparr>"
  by (simp add: ex_handler_part000_def new_RemindersHandler_part000_def empty_store_def)

lemma ex_store_part000_eq: "ex_store_part000 = ex_store"
  by (simp add: ex_store_part000_def ex_handler_part000_eq new_RemindersHandler_part000_def
      empty_store_def addReminder_part000_def reminders_part000_def new_Reminder_def
      Array_push_def ex_store_eq)

lemma addReminder_part000_same:
  "q_reminders that = p_reminders this \<Longrightarrow>
   addReminder_part000 that d t s = addReminder this d t s"
  by (simp add: addReminder_part000_def addReminder_def reminders_part000_def new_Reminder_def)

lemma getReminder_part000_throws: "getReminder_part000 this i s = Inl NotYetImplemented"
  by (simp add: getReminder_part000_def)

lemma modifyReminder_part000_throws:
  "modifyReminder_part000 this i d s = (Inl NotYetImplemented, s)"
  by (simp add: modifyReminder_part000_def)

lemma search_part000_case_sensitive:
  "search_part000 ex_handler_part000 ''grocery'' ex_store_part000 = [1]"
  "search_part000 ex_handler_part000 ''GROCERY'' ex_store_part000 = []"
  by code_simp+

lemma reminders_part000_is_the_array:
  "fst (reminders_part000 this s) = q_reminders this"
  "size_part000 ex_handler_part000 ex_store_part000 = 3"
  "size_part000 ex_handler_part000
     (Array_push (fst (reminders_part000 ex_handler_part000 ex_store_part000)) 0
        (snd (reminders_part000 ex_handler_part000 ex_store_part000))) = 4"
  by (simp_all add: reminders_part000_def size_part000_def Array_push_def ex_store_part000_eq
      ex_handler_part000_eq ex_store_eq)

lemma groupByTag_part000_ex:
  "(case groupByTag_part000 ex_handler_part000 ex_store_part000 of
      Inl e \<Rightarrow> False
    | Inr g \<Rightarrow> g ''Grocery'' = Some [] \<and> g ''grocery'' = Some [] \<and> g ''Work'' = Some [] \<and>
               g ''work'' = None)"
  by code_simp

end
